theory Spec2Isabelle
  imports Complex_Main
begin

section \<open>Python values used by the request handler\<close>

text \<open>
  An exception object is modelled by the two things the handler can observe of it:
  the names of the classes it is an instance of (its class and all base classes), which
  decide whether an \<^verbatim>\<open>except ValueError\<close> clause catches it, and the text
  that \<^verbatim>\<open>str(e)\<close> returns.
\<close>

datatype py_exception = PyExc (exc_mro: "string list") (exc_str: string)

definition isinstance :: "py_exception \<Rightarrow> string \<Rightarrow> bool" where
  "isinstance e cls = (cls \<in> set (exc_mro e))"

definition ValueError :: "string \<Rightarrow> py_exception" where
  "ValueError msg = PyExc [''ValueError'', ''Exception'', ''BaseException'', ''object''] msg"

definition OverflowError :: "string \<Rightarrow> py_exception" where
  "OverflowError msg =
     PyExc [''OverflowError'', ''ArithmeticError'', ''Exception'', ''BaseException'', ''object''] msg"

text \<open>
  The template context built by both routes of \<^verbatim>\<open>app.py\<close>:
  \<^verbatim>\<open>{"result": ..., "error": ...}\<close>. Python's \<^verbatim>\<open>None\<close> is \<open>None\<close>;
  a field is populated when it is not \<open>None\<close>.
\<close>

record 'r view_model =
  result :: "'r option"
  error :: "string option"

section \<open>The imported calculator module, as the handler sees it\<close>

text \<open>
  \<^verbatim>\<open>from calculator import add, subtract, multiply, divide\<close>: four callables
  of two arguments. A call runs in the process state \<open>'s\<close>, which it may change, and
  either returns a value (\<open>Inr\<close>) or raises (\<open>Inl\<close>). The handler never looks
  inside an operand (\<open>'n\<close>) or a returned value (\<open>'r\<close>), so both stay type
  parameters.
\<close>

type_synonym ('n, 'r, 's) py_callable = "'n \<Rightarrow> 'n \<Rightarrow> 's \<Rightarrow> (py_exception + 'r) \<times> 's"

record ('n, 'r, 's) calculator_module =
  add_fn :: "('n, 'r, 's) py_callable"
  subtract_fn :: "('n, 'r, 's) py_callable"
  multiply_fn :: "('n, 'r, 's) py_callable"
  divide_fn :: "('n, 'r, 's) py_callable"

section \<open>The request handler of app.py\<close>

text \<open>
  \<^verbatim>\<open>GET /\<close> renders the template with both fields \<^verbatim>\<open>None\<close>.
\<close>

definition index :: "'r view_model" where
  "index = \<lparr>result = None, error = None\<rparr>"

text \<open>
  The statement \<^verbatim>\<open>result = f(a, b)\<close> inside the \<^verbatim>\<open>try\<close> block:
  when the call returns, \<^verbatim>\<open>result\<close> holds the returned value; when it raises,
  the exception leaves the block.
\<close>

definition assign_call ::
  "('n, 'r, 's) py_callable \<Rightarrow> 'n \<Rightarrow> 'n \<Rightarrow> 's \<Rightarrow> (py_exception + 'r option) \<times> 's" where
  "assign_call f a b s =
     (case f a b s of
        (Inr v, s') \<Rightarrow> (Inr (Some v), s')
      | (Inl e, s') \<Rightarrow> (Inl e, s'))"

text \<open>
  \<^verbatim>\<open>POST /\<close>. The handler returns the template context (\<open>Inr\<close>), or an
  exception that no clause caught leaves it (\<open>Inl\<close>).
\<close>

definition calculate ::
  "('n, 'r, 's) calculator_module \<Rightarrow> 'n \<Rightarrow> 'n \<Rightarrow> string \<Rightarrow> 's
     \<Rightarrow> (py_exception + 'r view_model) \<times> 's" where
  "calculate m a b operation s =
     (let result = None; error = None in
      case (if operation = ''add'' then assign_call (add_fn m) a b s
            else if operation = ''subtract'' then assign_call (subtract_fn m) a b s
            else if operation = ''multiply'' then assign_call (multiply_fn m) a b s
            else if operation = ''divide'' then assign_call (divide_fn m) a b s
            else (Inr result, s)) of
        (Inr result', s') \<Rightarrow> (Inr \<lparr>result = result', error = error\<rparr>, s')
      | (Inl e, s') \<Rightarrow>
          if isinstance e ''ValueError''
          then (Inr \<lparr>result = result, error = Some (exc_str e)\<rparr>, s')
          else (Inl e, s'))"

text \<open>
  The dispatch as the specification words it: a fixed table from the four selector
  values to the functions of the module.
\<close>

definition dispatch_table ::
  "('n, 'r, 's) calculator_module \<Rightarrow> (string \<times> ('n, 'r, 's) py_callable) list" where
  "dispatch_table m =
     [(''add'', add_fn m), (''subtract'', subtract_fn m),
      (''multiply'', multiply_fn m), (''divide'', divide_fn m)]"

definition valid_operations :: "string list" where
  "valid_operations = [''add'', ''subtract'', ''multiply'', ''divide'']"

section \<open>The calculator module\<close>

text \<open>
  \<^verbatim>\<open>calculator.py\<close> is imported by \<^verbatim>\<open>app.py\<close> and exercised by
  \<^verbatim>\<open>tests/test_calculator.py\<close>, but the file itself is not among the sources, so
  its four functions are modelled from the specification.

  A finite float is the real number it denotes (the two zeros are the one real \<open>0\<close>,
  as Python's \<^verbatim>\<open>==\<close> has it). A float operation computes the exact result and
  rounds it to a float, possibly to an infinity; that last step is the parameter
  \<open>fl\<close>, about which nothing is assumed.
\<close>

text \<open>
  Modelled from the spec: \<^verbatim>\<open>add\<close> of the missing \<^verbatim>\<open>calculator.py\<close>,
  section 4.1: "add(a, b) -> a + b. Always succeeds for finite numeric inputs."
\<close>

definition add :: "(real \<Rightarrow> 'r) \<Rightarrow> real \<Rightarrow> real \<Rightarrow> py_exception + 'r" where
  "add fl a b = Inr (fl (a + b))"

text \<open>
  Modelled from the spec: \<^verbatim>\<open>subtract\<close> of the missing \<^verbatim>\<open>calculator.py\<close>,
  section 4.1: "subtract(a, b) -> a - b. Always succeeds."
\<close>

definition subtract :: "(real \<Rightarrow> 'r) \<Rightarrow> real \<Rightarrow> real \<Rightarrow> py_exception + 'r" where
  "subtract fl a b = Inr (fl (a - b))"

text \<open>
  Modelled from the spec: \<^verbatim>\<open>multiply\<close> of the missing \<^verbatim>\<open>calculator.py\<close>,
  section 4.1: "multiply(a, b) -> a * b. Always succeeds."
\<close>

definition multiply :: "(real \<Rightarrow> 'r) \<Rightarrow> real \<Rightarrow> real \<Rightarrow> py_exception + 'r" where
  "multiply fl a b = Inr (fl (a * b))"

text \<open>
  Modelled from the spec: \<^verbatim>\<open>divide\<close> of the missing \<^verbatim>\<open>calculator.py\<close>,
  section 4.1: "divide(a, b) -> a / b. Fails with a DivisionByZero error when b == 0."
  The error is a \<^verbatim>\<open>ValueError\<close> and its message is written as
  \<^verbatim>\<open>test_divide_by_zero\<close> matches it:
  \<^verbatim>\<open>pytest.raises(ValueError, match="Cannot divide by zero")\<close>.
\<close>

definition divide_calc :: "(real \<Rightarrow> 'r) \<Rightarrow> real \<Rightarrow> real \<Rightarrow> py_exception + 'r" where
  "divide_calc fl a b =
     (if b = 0 then Inl (ValueError ''Cannot divide by zero'') else Inr (fl (a / b)))"

text \<open>
  The four functions have no side effect (section 4.1): as callables they leave the
  state as it is.
\<close>

definition pure_call :: "('n \<Rightarrow> 'n \<Rightarrow> py_exception + 'r) \<Rightarrow> ('n, 'r, 's) py_callable" where
  "pure_call f a b s = (f a b, s)"

definition calculator :: "(real \<Rightarrow> 'r) \<Rightarrow> (real, 'r, 's) calculator_module" where
  "calculator fl =
     \<lparr>add_fn = pure_call (add fl), subtract_fn = pure_call (subtract fl),
      multiply_fn = pure_call (multiply fl), divide_fn = pure_call (divide_calc fl)\<rparr>"

section \<open>Modules that record their calls\<close>

text \<open>
  To observe which functions the handler calls, the state is the list of the names of
  the functions called so far: each function appends its own name and then behaves as
  the given pure function.
\<close>

definition logged ::
  "string \<Rightarrow> ('n \<Rightarrow> 'n \<Rightarrow> py_exception + 'r) \<Rightarrow> ('n, 'r, string list) py_callable" where
  "logged name f a b s = (f a b, s @ [name])"

definition logged_calculator :: "(real \<Rightarrow> 'r) \<Rightarrow> (real, 'r, string list) calculator_module" where
  "logged_calculator fl =
     \<lparr>add_fn = logged ''add'' (add fl), subtract_fn = logged ''subtract'' (subtract fl),
      multiply_fn = logged ''multiply'' (multiply fl),
      divide_fn = logged ''divide'' (divide_calc fl)\<rparr>"

text \<open>A module all of whose functions raise the given exception.\<close>

definition raising :: "py_exception \<Rightarrow> (real, real, string list) calculator_module" where
  "raising e =
     \<lparr>add_fn = logged ''add'' (\<lambda>a b. Inl e), subtract_fn = logged ''subtract'' (\<lambda>a b. Inl e),
      multiply_fn = logged ''multiply'' (\<lambda>a b. Inl e),
      divide_fn = logged ''divide'' (\<lambda>a b. Inl e)\<rparr>"

section \<open>Strings\<close>

text \<open>
  \<^verbatim>\<open>str.lower\<close> on ASCII text and the substring test
  \<^verbatim>\<open>needle in haystack\<close>.
\<close>

definition lower_char :: "char \<Rightarrow> char" where
  "lower_char c =
     (let n = (of_char c :: nat) in if 65 \<le> n \<and> n \<le> 90 then char_of (n + 32) else c)"

definition lower :: "string \<Rightarrow> string" where
  "lower s = map lower_char s"

fun contains :: "string \<Rightarrow> string \<Rightarrow> bool" where
  "contains needle [] = (needle = [])"
| "contains needle (c # cs) = (take (length needle) (c # cs) = needle \<or> contains needle cs)"

section \<open>Basic facts\<close>

lemma isinstance_ValueError [simp]: "isinstance (ValueError msg) ''ValueError''"
  by (simp add: isinstance_def ValueError_def)

lemma exc_str_ValueError [simp]: "exc_str (ValueError msg) = msg"
  by (simp add: ValueError_def)

lemma not_isinstance_OverflowError [simp]: "\<not> isinstance (OverflowError msg) ''ValueError''"
  by (simp add: isinstance_def OverflowError_def)

lemma dispatch_table_dom: "dom (map_of (dispatch_table m)) = set valid_operations"
  by (auto simp: dispatch_table_def valid_operations_def split: if_splits)

text \<open>
  The \<^verbatim>\<open>if\<close>/\<^verbatim>\<open>elif\<close> chain of the handler is a lookup in the
  specification's table: with the entry \<open>f\<close> of the selector, the handler is one call of
  \<open>f\<close> followed by the \<^verbatim>\<open>except\<close> clause.
\<close>

lemma calculate_table:
  assumes "map_of (dispatch_table m) operation = Some f"
  shows "calculate m a b operation s =
    (case f a b s of
       (Inr v, s') \<Rightarrow> (Inr \<lparr>result = Some v, error = None\<rparr>, s')
     | (Inl e, s') \<Rightarrow>
         if isinstance e ''ValueError''
         then (Inr \<lparr>result = None, error = Some (exc_str e)\<rparr>, s')
         else (Inl e, s'))"
  using assms
  by (auto simp: dispatch_table_def calculate_def assign_call_def
           split: if_splits prod.splits sum.splits)

lemma calculate_no_table_entry:
  assumes "map_of (dispatch_table m) operation = None"
  shows "calculate m a b operation s = (Inr \<lparr>result = None, error = None\<rparr>, s)"
  using assms by (simp add: dispatch_table_def calculate_def split: if_splits)

text \<open>
  With the calculator module of the specification no exception leaves the handler, and
  the state is left as it was: every POST renders a view model.
\<close>

lemma calculate_calculator_renders:
  "\<exists>vm. calculate (calculator fl) a b operation s = (Inr vm, s)"
  by (simp add: calculate_def assign_call_def calculator_def pure_call_def add_def
        subtract_def multiply_def divide_calc_def)

text \<open>
  The exact cases of \<^verbatim>\<open>tests/test_calculator.py\<close>, run on the modelled module.
  Their operands and results are small integers, which floats represent exactly, so the
  rounding is the identity here.
\<close>

lemma test_calculator_cases:
  "add id 2 3 = Inr 5" "add id (-1) (-1) = Inr (-2)" "add id (-1) 3 = Inr 2"
  "subtract id 5 3 = Inr 2" "subtract id 3 5 = Inr (-2)"
  "multiply id 4 3 = Inr 12" "multiply id 5 0 = Inr 0"
  "divide_calc id 10 2 = Inr 5"
  "\<exists>e. divide_calc id 10 0 = Inl e \<and> isinstance e ''ValueError'' \<and>
        contains ''Cannot divide by zero'' (exc_str e)"
  by (simp_all add: add_def subtract_def multiply_def divide_calc_def)

section \<open>Unknown selectors\<close>

text \<open>
  C5. A POST whose selector is none of add, subtract, multiply, divide calls no function
  of the module (the state is the one the handler started in, whatever the module's
  functions would do), raises nothing, and renders with result and error both empty.
\<close>

theorem calculate_unknown_operation:
  assumes "operation \<notin> set valid_operations"
  shows "calculate m a b operation s = (Inr \<lparr>result = None, error = None\<rparr>, s)"
  using assms by (simp add: calculate_def valid_operations_def)

theorem calculate_unknown_operation_witness:
  "''power'' \<notin> set valid_operations \<and>
   calculate (raising (OverflowError ''too large'')) 2 3 ''power'' [] =
     (Inr \<lparr>result = None, error = None\<rparr>, [])"
  using calculate_unknown_operation [of "''power''" "raising (OverflowError ''too large'')" 2 3 "[]"]
  by (simp add: valid_operations_def)

section \<open>Dispatch of the four operations\<close>

text \<open>
  C1. For a POST whose selector is one of add, subtract, multiply, divide, the handler
  calls the function that the table gives for the selector, once and nothing else (the
  final state is the one that call leaves). When the call returns \<open>v\<close>, result is
  \<open>v\<close> and error is empty; when it raises a \<^verbatim>\<open>ValueError\<close> (the
  division-by-zero failure), error is the exception's message and result is empty.
\<close>

theorem calculate_valid_operation:
  assumes "operation \<in> set valid_operations"
  shows "\<exists>f. map_of (dispatch_table m) operation = Some f \<and>
    (\<forall>v s'. f a b s = (Inr v, s') \<longrightarrow>
       calculate m a b operation s = (Inr \<lparr>result = Some v, error = None\<rparr>, s')) \<and>
    (\<forall>e s'. f a b s = (Inl e, s') \<and> isinstance e ''ValueError'' \<longrightarrow>
       calculate m a b operation s = (Inr \<lparr>result = None, error = Some (exc_str e)\<rparr>, s'))"
proof -
  from assms have "operation \<in> dom (map_of (dispatch_table m))"
    by (simp only: dispatch_table_dom)
  then obtain f where f: "map_of (dispatch_table m) operation = Some f"
    by blast
  show ?thesis
  proof (intro exI conjI allI impI)
    show "map_of (dispatch_table m) operation = Some f" by (rule f)
  next
    fix v s' assume "f a b s = (Inr v, s')"
    then show "calculate m a b operation s = (Inr \<lparr>result = Some v, error = None\<rparr>, s')"
      by (simp add: calculate_table [OF f])
  next
    fix e s' assume "f a b s = (Inl e, s') \<and> isinstance e ''ValueError''"
    then show "calculate m a b operation s =
        (Inr \<lparr>result = None, error = Some (exc_str e)\<rparr>, s')"
      by (simp add: calculate_table [OF f])
  qed
qed

theorem calculate_valid_operation_witness:
  "''add'' \<in> set valid_operations \<and> ''divide'' \<in> set valid_operations \<and>
   map_of (dispatch_table (logged_calculator id)) ''add'' = Some (logged ''add'' (add id)) \<and>
   calculate (logged_calculator id) 2 3 ''add'' [] =
     (Inr \<lparr>result = Some 5, error = None\<rparr>, [''add'']) \<and>
   calculate (logged_calculator id) 10 0 ''divide'' [] =
     (Inr \<lparr>result = None, error = Some ''Cannot divide by zero''\<rparr>, [''divide''])"
  using calculate_valid_operation [of "''add''" "logged_calculator id" 2 3 "[]"]
    calculate_valid_operation [of "''divide''" "logged_calculator id" 10 0 "[]"]
  by (simp add: valid_operations_def dispatch_table_def logged_calculator_def logged_def
        add_def divide_calc_def)

section \<open>The view model\<close>

text \<open>
  C3. The view model of \<^verbatim>\<open>GET /\<close> and the view model that \<^verbatim>\<open>POST /\<close>
  renders, for any module, operands, selector and state, never have result and error both
  populated. (When an exception leaves the handler there is no view model.)
\<close>

theorem result_error_not_both:
  "(result index = None \<or> error index = None) \<and>
   (case fst (calculate m a b operation s) of
      Inr vm \<Rightarrow> result vm = None \<or> error vm = None
    | Inl e \<Rightarrow> True)"
proof (cases "map_of (dispatch_table m) operation")
  case None
  then show ?thesis
    by (simp add: calculate_no_table_entry index_def)
next
  case (Some f)
  then show ?thesis
    by (simp add: calculate_table index_def split: prod.splits sum.splits)
qed

theorem result_error_not_both_witness:
  "fst (calculate (logged_calculator id) 10 0 ''divide'' []) =
     Inr \<lparr>result = None, error = Some ''Cannot divide by zero''\<rparr> \<and>
   fst (calculate (logged_calculator id) 10 4 ''divide'' []) =
     Inr \<lparr>result = Some (5 / 2), error = None\<rparr>"
  using result_error_not_both [of "logged_calculator id" 10 0 "''divide''" "[]"]
    result_error_not_both [of "logged_calculator id" 10 4 "''divide''" "[]"]
  by (simp add: calculate_def assign_call_def logged_calculator_def logged_def divide_calc_def)

text \<open>
  C4, as the specification states it, fails: a POST with a selector outside the four
  renders with both fields empty, as \<^verbatim>\<open>GET /\<close> does.
\<close>

theorem post_both_empty_counterexample:
  "calculate (calculator id) 1 2 ''power'' () = (Inr \<lparr>result = None, error = None\<rparr>, ())"
  by (simp add: calculate_def)

text \<open>
  C4, amended. In the view model that a POST renders, exactly one of result and error is
  populated when the selector is one of add, subtract, multiply, divide, and both are
  empty when it is any other string; \<^verbatim>\<open>GET /\<close> renders both empty.
\<close>

theorem calculate_populated_fields:
  assumes "calculate m a b operation s = (Inr vm, s')"
  shows "(if operation \<in> set valid_operations
          then (result vm = None) \<noteq> (error vm = None)
          else result vm = None \<and> error vm = None) \<and>
         result index = None \<and> error index = None"
proof (cases "map_of (dispatch_table m) operation")
  case None
  then have "operation \<notin> set valid_operations"
    using dispatch_table_dom [of m] by blast
  with None assms show ?thesis
    by (auto simp: calculate_no_table_entry index_def)
next
  case (Some f)
  then have "operation \<in> set valid_operations"
    using dispatch_table_dom [of m] by blast
  with Some assms show ?thesis
    by (auto simp: calculate_table index_def split: prod.splits sum.splits if_splits)
qed

theorem calculate_populated_fields_witness:
  "calculate (calculator id) 5 3 ''subtract'' () = (Inr \<lparr>result = Some 2, error = None\<rparr>, ()) \<and>
   ''subtract'' \<in> set valid_operations \<and>
   calculate (calculator id) 5 0 ''divide'' () =
     (Inr \<lparr>result = None, error = Some ''Cannot divide by zero''\<rparr>, ()) \<and>
   ''divide'' \<in> set valid_operations \<and>
   calculate (calculator id) 5 3 ''power'' () = (Inr \<lparr>result = None, error = None\<rparr>, ()) \<and>
   ''power'' \<notin> set valid_operations"
  using calculate_populated_fields [of "calculator id" 5 3 "''subtract''" "()"
      "\<lparr>result = Some 2, error = None\<rparr>" "()"]
    calculate_populated_fields [of "calculator id" 5 0 "''divide''" "()"
      "\<lparr>result = None, error = Some ''Cannot divide by zero''\<rparr>" "()"]
    calculate_populated_fields [of "calculator id" 5 3 "''power''" "()"
      "\<lparr>result = None, error = None\<rparr>" "()"]
  by (simp add: calculate_def assign_call_def calculator_def pure_call_def subtract_def
        divide_calc_def valid_operations_def)

section \<open>Exceptions raised during dispatch\<close>



text \<open>
  C10. The \<^verbatim>\<open>except ValueError\<close> clause covers the whole dispatch: a
  \<^verbatim>\<open>ValueError\<close> raised by add, subtract, multiply or divide alike is turned into
  the view model's error field, set to the exception's message as it is, with result
  empty, and does not leave the handler.
\<close>

theorem calculate_converts_value_error:
  assumes "isinstance e ''ValueError''"
  shows "(add_fn m a b s = (Inl e, s') \<longrightarrow>
            calculate m a b ''add'' s = (Inr \<lparr>result = None, error = Some (exc_str e)\<rparr>, s')) \<and>
         (subtract_fn m a b s = (Inl e, s') \<longrightarrow>
            calculate m a b ''subtract'' s = (Inr \<lparr>result = None, error = Some (exc_str e)\<rparr>, s')) \<and>
         (multiply_fn m a b s = (Inl e, s') \<longrightarrow>
            calculate m a b ''multiply'' s = (Inr \<lparr>result = None, error = Some (exc_str e)\<rparr>, s')) \<and>
         (divide_fn m a b s = (Inl e, s') \<longrightarrow>
            calculate m a b ''divide'' s = (Inr \<lparr>result = None, error = Some (exc_str e)\<rparr>, s'))"
  using assms by (simp add: calculate_def assign_call_def)

theorem calculate_converts_value_error_witness:
  "isinstance (ValueError ''bad operand'') ''ValueError'' \<and>
   calculate (raising (ValueError ''bad operand'')) 2 3 ''add'' [] =
     (Inr \<lparr>result = None, error = Some ''bad operand''\<rparr>, [''add'']) \<and>
   calculate (raising (ValueError ''bad operand'')) 2 3 ''subtract'' [] =
     (Inr \<lparr>result = None, error = Some ''bad operand''\<rparr>, [''subtract'']) \<and>
   calculate (raising (ValueError ''bad operand'')) 2 3 ''multiply'' [] =
     (Inr \<lparr>result = None, error = Some ''bad operand''\<rparr>, [''multiply'']) \<and>
   calculate (raising (ValueError ''bad operand'')) 2 3 ''divide'' [] =
     (Inr \<lparr>result = None, error = Some ''bad operand''\<rparr>, [''divide''])"
  using calculate_converts_value_error
    [of "ValueError ''bad operand''" "raising (ValueError ''bad operand'')" 2 3 "[]"
        "[''add'']"]
    calculate_converts_value_error
    [of "ValueError ''bad operand''" "raising (ValueError ''bad operand'')" 2 3 "[]"
        "[''subtract'']"]
    calculate_converts_value_error
    [of "ValueError ''bad operand''" "raising (ValueError ''bad operand'')" 2 3 "[]"
        "[''multiply'']"]
    calculate_converts_value_error
    [of "ValueError ''bad operand''" "raising (ValueError ''bad operand'')" 2 3 "[]"
        "[''divide'']"]
  by (simp add: raising_def logged_def)

section \<open>The arithmetic functions\<close>

text \<open>
  C2. For every finite \<open>a\<close>, \<^verbatim>\<open>divide(a, 0)\<close> returns no value: it raises a
  \<^verbatim>\<open>ValueError\<close>, the division-by-zero failure, whose message contains
  "divide by zero" once both are compared in lower case.
\<close>

theorem divide_by_zero_fails:
  "\<exists>e. divide_calc fl a 0 = Inl e \<and> isinstance e ''ValueError'' \<and>
        contains (lower ''divide by zero'') (lower (exc_str e))"
  by (simp add: divide_calc_def lower_def lower_char_def)

text \<open>
  C6. For all finite \<open>a\<close> and \<open>b\<close>, add, subtract and multiply return the float
  that represents \<open>a + b\<close>, \<open>a - b\<close> and \<open>a * b\<close>, and none of them raises.
\<close>

theorem add_subtract_multiply_total:
  "add fl a b = Inr (fl (a + b)) \<and> subtract fl a b = Inr (fl (a - b)) \<and>
   multiply fl a b = Inr (fl (a * b)) \<and>
   \<not> isl (add fl a b) \<and> \<not> isl (subtract fl a b) \<and> \<not> isl (multiply fl a b)"
  by (simp add: add_def subtract_def multiply_def)

text \<open>
  C7. For all finite \<open>a\<close> and \<open>b\<close> with \<open>b\<close> not zero, divide raises nothing and
  returns the float that represents the quotient \<open>a / b\<close>, whatever the operands.
\<close>

theorem divide_nonzero:
  assumes "b \<noteq> 0"
  shows "divide_calc fl a b = Inr (fl (a / b))"
  using assms by (simp add: divide_calc_def)

theorem divide_nonzero_witness:
  "(2::real) \<noteq> 0 \<and> divide_calc id 10 2 = Inr 5"
  using divide_nonzero [of 2 id 10] by simp

text \<open>
  C9. add is commutative: for all finite \<open>a\<close> and \<open>b\<close>, \<^verbatim>\<open>add(a, b)\<close> and
  \<^verbatim>\<open>add(b, a)\<close> are the same result, whatever the rounding.
\<close>

theorem add_commutative:
  "add fl a b = add fl b a"
  by (simp add: add_def add.commute)

end
